theory Spec2Isabelle
  imports Complex_Main "HOL-Library.Word" "HOL-Library.Log_Nat"
begin

section \<open>The lifecycle controller of sdr\_record\<close>

text \<open>
  A shallow embedding of \<^verbatim>\<open>src/sdr_record/sdr_record.cpp\<close> and of the structure
  declared in \<^verbatim>\<open>src/sdr_record/sdr_record.hpp\<close>.  The program is a sequence of calls
  into libraries (syslog, boost::program\_options, iostreams, the C++ thread library)
  and into collaborators (SDR, DSP\_V3, PingLocalizer).  The model keeps the control
  flow of every function of the file and records each such call, in program order, in
  a trace; the file system is a map from paths to contents; \<^verbatim>\<open>exit(n)\<close> is the
  result \<open>Inl n\<close>.
\<close>

subsection \<open>Values\<close>

text \<open>
  \<^verbatim>\<open>std::size_t\<close> is a 64-bit word and \<^verbatim>\<open>std::uint8_t\<close> an 8-bit word.  A
  \<^verbatim>\<open>double\<close> is one of the finite values (all of them rational numbers; the model
  admits every rational, and \<open>Finite 0\<close> is the positive zero), the negative zero,
  the two infinities, or a NaN with its sign bit (\<open>NaN True\<close> has it set).
\<close>

type_synonym size_t = "64 word"
type_synonym uint8_t = "8 word"

datatype double = Finite rat | NegZero | PInf | NInf | NaN bool

text \<open>The comparison \<^verbatim>\<open><\<close> of two doubles: false as soon as one side is a NaN, and
  the two zeros compare as equal.\<close>

fun double_less :: "double \<Rightarrow> double \<Rightarrow> bool" where
  "double_less (NaN _) _ = False"
| "double_less _ (NaN _) = False"
| "double_less PInf _ = False"
| "double_less _ NInf = False"
| "double_less NInf _ = True"
| "double_less _ PInf = True"
| "double_less (Finite a) (Finite b) = (a < b)"
| "double_less (Finite a) NegZero = (a < 0)"
| "double_less NegZero (Finite b) = (0 < b)"
| "double_less NegZero NegZero = False"

text \<open>\<^verbatim>\<open>struct cmd_args\<close> (sdr\_record.hpp, lines 28 to 43), with its default
  member initialisers.\<close>

record cmd_args =
  gain :: double
  rate :: size_t
  rx_freq :: size_t
  run_num :: size_t
  data_dir :: string
  test_config :: bool
  test_data :: string
  gps_target :: string
  ping_width_ms :: size_t
  ping_min_snr :: double
  ping_max_len_mult :: double
  ping_min_len_mult :: double
  gps_mode :: bool
  frequencies :: "32 word list"

definition cmd_args_default :: cmd_args where
  "cmd_args_default =
     \<lparr> gain = Finite (-1), rate = 0, rx_freq = 0, run_num = 0, data_dir = [],
       test_config = False, test_data = [], gps_target = [], ping_width_ms = 36,
       ping_min_snr = Finite 4, ping_max_len_mult = Finite (3 / 2),
       ping_min_len_mult = Finite (3 / 4), gps_mode = False, frequencies = [] \<rparr>"

subsection \<open>Calls, trace and process state\<close>

datatype priority =
  LOG_EMERG | LOG_ALERT | LOG_CRIT | LOG_ERR | LOG_WARNING | LOG_NOTICE | LOG_INFO | LOG_DEBUG

text \<open>The variadic arguments of a \<^verbatim>\<open>syslog\<close> call (\<^verbatim>\<open>%lu\<close>, \<^verbatim>\<open>%.2f\<close>, \<^verbatim>\<open>%s\<close>).\<close>

datatype fmt_arg = ArgSize size_t | ArgDouble double | ArgStr string

text \<open>
  One constructor for each library or collaborator call the file makes.  A \<open>Syslog\<close>
  event is the call, with its priority, format string and arguments; whether the C
  library emits the record depends on the log mask and is outside this file.
\<close>

datatype event =
    Openlog
  | Setlogmask_UPTO uint8_t
  | Syslog priority string "fmt_arg list"
  | Signal_SIGINT
  | New_SDR_RECORD
  | Cout_desc
  | New_SDR double size_t size_t
  | New_DSP_V3 size_t
  | New_PingLocalizer
  | Clock_gettime
  | Ofstream_open string
  | Ofstream_close
  | StartProcessing
  | StartStreaming
  | StopStreaming
  | StopProcessing
  | Lock_run_mutex
  | Unlock_run_mutex
  | Load_program_on bool
  | Store_program_on bool
  | Wait_for_run_var nat
  | Notify_all_run_var

type_synonym filesystem = "string \<rightharpoonup> string"

text \<open>
  The state of the process.  \<^verbatim>\<open>SDR_RECORD\<close> is a singleton: \<open>m_pInstance\<close> says
  whether the static pointer is set, and the members of the one object
  (\<open>args\<close>, \<open>program_on\<close>, and which collaborators have been constructed) are
  fields of the state.
\<close>

record state =
  m_pInstance :: bool
  args :: cmd_args
  program_on :: bool
  sdr :: bool
  dsp :: bool
  localizer :: bool
  files :: filesystem
  trace :: "event list"

definition emit :: "event \<Rightarrow> state \<Rightarrow> state" where
  "emit ev s = s\<lparr>trace := trace s @ [ev]\<rparr>"

definition emits :: "event list \<Rightarrow> state \<Rightarrow> state" where
  "emits evs s = s\<lparr>trace := trace s @ evs\<rparr>"

text \<open>The calls a function added to the trace of the state it started from.\<close>

definition events_since :: "state \<Rightarrow> state \<Rightarrow> event list" where
  "events_since s s' = drop (length (trace s)) (trace s')"

definition newline :: string where
  "newline = [CHR 0x0A]"

subsection \<open>The environment\<close>

text \<open>
  What the program cannot decide by itself: whether \<^verbatim>\<open>std::ofstream::open\<close>
  succeeds on a path, the double that \<^verbatim>\<open>tv_sec + (float)tv_nsec / 1.e9\<close> evaluates to
  on the clock reading (floating-point arithmetic, not modelled), whether
  the constructor of \<^verbatim>\<open>RTT::SDR\<close> throws \<^verbatim>\<open>std::runtime_error\<close>, and during which of
  the waits of the main loop a SIGINT is delivered.
\<close>

record env =
  can_open :: "string \<Rightarrow> bool"
  start_time :: double
  sdr_throws :: bool
  sigint_during_wait :: "nat \<Rightarrow> bool"

subsection \<open>Command line options\<close>

text \<open>
  The result of \<^verbatim>\<open>po::store(po::parse_command_line(argc, argv, desc), vm)\<close>: for each
  declared option the value given on the command line, if any.  Parsing itself (and
  the exception it throws on a malformed command line) belongs to the library.
\<close>

record options =
  opt_help :: bool
  opt_gain :: "double option"
  opt_sampling_freq :: "size_t option"
  opt_center_freq :: "size_t option"
  opt_run :: "size_t option"
  opt_output :: "string option"
  opt_verbose :: "uint8_t option"

text \<open>\<^verbatim>\<open>notify(vm)\<close>: an option declared with \<^verbatim>\<open>po::value(&x)\<close> stores its value in
  \<open>x\<close> when it was given and leaves \<open>x\<close> alone otherwise.\<close>

definition stored :: "'a option \<Rightarrow> 'a \<Rightarrow> 'a" where
  "stored v x = (case v of Some y \<Rightarrow> y | None \<Rightarrow> x)"

definition notify :: "options \<Rightarrow> cmd_args \<Rightarrow> cmd_args" where
  "notify opts a =
     a\<lparr> gain := stored (opt_gain opts) (gain a),
        rate := stored (opt_sampling_freq opts) (rate a),
        rx_freq := stored (opt_center_freq opts) (rx_freq a),
        run_num := stored (opt_run opts) (run_num a),
        data_dir := stored (opt_output opts) (data_dir a) \<rparr>"

text \<open>\<^verbatim>\<open>SDR_RECORD::process_args\<close> (sdr\_record.cpp, lines 87 to 183).\<close>

definition process_args :: "options \<Rightarrow> state \<Rightarrow> (int + unit) \<times> state" where
  "process_args opts s0 =
     (let verbosity = stored (opt_verbose opts) 0;
          s1 = s0\<lparr>args := notify opts (args s0)\<rparr>
      in if opt_help opts then (Inl 0, emit Cout_desc s1)
      else
        let s2 = emits [Setlogmask_UPTO verbosity,
                        Syslog LOG_INFO ''Sanity checking args'' []] s1
        in if run_num (args s2) = 0 then
             (Inl 0, emits [Syslog LOG_ERR (''Must set run number'' @ newline) [],
                            Cout_desc] s2)
        else
        let s3 = emit (Syslog LOG_DEBUG (''Got run_num as %lu'' @ newline)
                         [ArgSize (run_num (args s2))]) s2
        in if double_less (gain (args s3)) (Finite 0) then
             (Inl 0, emits [Syslog LOG_ERR (''Must set gain'' @ newline) [],
                            Cout_desc] s3)
        else
        let s4 = emit (Syslog LOG_DEBUG (''Got gain as %.2f'' @ newline)
                         [ArgDouble (gain (args s3))]) s3
        in if data_dir (args s4) = [] then
             (Inl 0, emits [Syslog LOG_ERR (''Must set directory'' @ newline) [],
                            Cout_desc] s4)
        else
        let s5 = emit (Syslog LOG_DEBUG (''Got data_dir as %s'' @ newline)
                         [ArgStr (data_dir (args s4))]) s4
        in if rx_freq (args s5) = 0 then
             (Inl 0, emits [Syslog LOG_ERR (''Must set freq'' @ newline) [],
                            Cout_desc] s5)
        else
        let s6 = emit (Syslog LOG_DEBUG (''Got rx_freq as %lu'' @ newline)
                         [ArgSize (rx_freq (args s5))]) s5
        in if rate (args s6) = 0 then
             (Inl 0, emits [Syslog LOG_ERR (''Must set rate'' @ newline) [],
                            Cout_desc] s6)
        else
          (Inr (), emit (Syslog LOG_DEBUG (''Got rate as %lu'' @ newline)
                          [ArgSize (rate (args s6))]) s6))"

subsection \<open>Stream output\<close>

text \<open>Decimal output of an unsigned integer.\<close>

definition digit_char :: "nat \<Rightarrow> char" where
  "digit_char d = ''0123456789'' ! d"

fun show_nat :: "nat \<Rightarrow> string" where
  "show_nat n =
     (if n < 10 then [digit_char n]
      else show_nat (n div 10) @ [digit_char (n mod 10)])"

declare show_nat.simps [simp del]

text \<open>\<^verbatim>\<open>std::setw(w)\<close> with \<^verbatim>\<open>std::setfill(c)\<close>, right adjustment: the field is
  filled on the left up to the width, and never cut.\<close>

definition setw_setfill :: "nat \<Rightarrow> char \<Rightarrow> string \<Rightarrow> string" where
  "setw_setfill w c txt = replicate (w - length txt) c @ txt"

text \<open>
  \<^verbatim>\<open>operator<<\<close> on a double, with the precision 6 and the float field a stream has
  when nothing changed them: the conversion \<^verbatim>\<open>%g\<close> of the C library.  The value is
  rounded to six significant decimal digits (ties to even); with \<open>X\<close> its decimal
  exponent after rounding, the fixed notation is used when \<open>-4 \<le> X < 6\<close> and the
  scientific notation otherwise, and trailing zeros of the fraction are dropped.  A
  set sign bit is printed as \<^verbatim>\<open>-\<close>, also for the negative zero and for a NaN.
\<close>

definition dec_exponent :: "rat \<Rightarrow> int" where
  "dec_exponent a =
     (let (p, q) = quotient_of a; n = nat p; d = nat q
      in if d \<le> n then int (floorlog 10 (n div d)) - 1
         else - int (floorlog 10 ((d - 1) div n)))"

definition scale10 :: "rat \<Rightarrow> int \<Rightarrow> rat" where
  "scale10 a k = (if 0 \<le> k then a * 10 ^ nat k else a / 10 ^ nat (- k))"

definition round_half_even :: "rat \<Rightarrow> int" where
  "round_half_even r =
     (let f = \<lfloor>r\<rfloor>; d = r - of_int f
      in if d < 1 / 2 then f else if 1 / 2 < d then f + 1
         else if even f then f else f + 1)"

definition sig6 :: "rat \<Rightarrow> int \<times> int" where
  "sig6 a =
     (let X = dec_exponent a; m = round_half_even (scale10 a (5 - X))
      in if m = 1000000 then (100000, X + 1) else (m, X))"

definition strip_zeros :: "string \<Rightarrow> string" where
  "strip_zeros ds = rev (dropWhile (\<lambda>c. c = CHR ''0'') (rev ds))"

definition with_point :: "string \<Rightarrow> string \<Rightarrow> string" where
  "with_point i f = (if f = [] then i else i @ ''.'' @ f)"

definition show_g6 :: "rat \<Rightarrow> string" where
  "show_g6 a =
     (if a = 0 then ''0''
      else
        let (m, X) = sig6 a; ds = show_nat (nat m)
        in if - 4 \<le> X \<and> X < 6 then
             (if 0 \<le> X
              then with_point (take (nat X + 1) ds) (strip_zeros (drop (nat X + 1) ds))
              else ''0.'' @ replicate (nat (- X - 1)) (CHR ''0'') @ strip_zeros ds)
           else
             with_point (take 1 ds) (strip_zeros (drop 1 ds)) @ ''e''
               @ (if X < 0 then ''-'' else ''+'')
               @ setw_setfill 2 (CHR ''0'') (show_nat (nat \<bar>X\<bar>)))"

fun show_double :: "double \<Rightarrow> string" where
  "show_double (Finite r) = (if r < 0 then ''-'' else []) @ show_g6 \<bar>r\<bar>"
| "show_double NegZero = ''-0''"
| "show_double PInf = ''inf''"
| "show_double NInf = ''-inf''"
| "show_double (NaN sign) = (if sign then ''-nan'' else ''nan'')"

text \<open>
  A \<^verbatim>\<open>std::ofstream\<close>: the path it is open on, if any, and its failure flag.
  \<^verbatim>\<open>open\<close> truncates the file when it succeeds and sets the flag when it does not;
  an insertion into a stream that is not open or has failed writes nothing.
\<close>

record ofstream =
  opened :: "string option"
  failbit :: bool

definition ofstream_open ::
    "env \<Rightarrow> string \<Rightarrow> ofstream \<times> filesystem \<Rightarrow> ofstream \<times> filesystem" where
  "ofstream_open e p st =
     (case st of (f, fs) \<Rightarrow>
        if can_open e p then (f\<lparr>opened := Some p\<rparr>, fs(p \<mapsto> []))
        else (f\<lparr>failbit := True\<rparr>, fs))"

definition ofstream_put :: "string \<Rightarrow> ofstream \<times> filesystem \<Rightarrow> ofstream \<times> filesystem" where
  "ofstream_put txt st =
     (case st of (f, fs) \<Rightarrow>
        (case opened f of
           None \<Rightarrow> (f\<lparr>failbit := True\<rparr>, fs)
         | Some p \<Rightarrow>
             if failbit f then (f, fs)
             else (f, fs(p \<mapsto> (case fs p of None \<Rightarrow> [] | Some c \<Rightarrow> c) @ txt))))"

subsection \<open>The controller\<close>

definition META_PREFIX :: string where
  "META_PREFIX = ''META_''"

text \<open>The constructor (lines 75 to 78) after the default member initialisers of the
  class (\<^verbatim>\<open>args\<close>, \<^verbatim>\<open>program_on = true\<close>).\<close>

definition SDR_RECORD_ctor :: "state \<Rightarrow> state" where
  "SDR_RECORD_ctor s =
     emits [Syslog LOG_INFO ''Setting signal handler'' [], Signal_SIGINT]
       (s\<lparr>args := cmd_args_default, program_on := True\<rparr>)"

text \<open>\<^verbatim>\<open>SDR_RECORD::instance\<close> (lines 80 to 85); the name carries a prime because
  \<open>instance\<close> is a keyword of Isabelle.\<close>

definition instance' :: "state \<Rightarrow> state" where
  "instance' s =
     (if \<not> m_pInstance s
      then (SDR_RECORD_ctor (emit New_SDR_RECORD s))\<lparr>m_pInstance := True\<rparr>
      else s)"

text \<open>\<^verbatim>\<open>SDR_RECORD::init\<close> (lines 185 to 202), built without \<^verbatim>\<open>TEST_SDR\<close>.\<close>

definition init :: "env \<Rightarrow> options \<Rightarrow> state \<Rightarrow> (int + unit) \<times> state" where
  "init e opts s =
     (case process_args opts s of
        (Inl status, s1) \<Rightarrow> (Inl status, s1)
      | (Inr u, s1) \<Rightarrow>
          let s2 = emits [Syslog LOG_INFO ''Initializing Radio'' [],
                          New_SDR (gain (args s1)) (rate (args s1)) (rx_freq (args s1))] s1
          in if sdr_throws e then
               (Inl 1, emit (Syslog LOG_CRIT ''No devices found!'' []) s2)
             else
               (Inr (), emits [New_DSP_V3 (rate (args s2)), New_PingLocalizer]
                          (s2\<lparr>sdr := True, dsp := True, localizer := True\<rparr>)))"

text \<open>
  \<^verbatim>\<open>SDR_RECORD::sig_handler\<close> (lines 204 to 210).  The handler runs on the thread
  the signal interrupts, and \<^verbatim>\<open>run_mutex\<close> is a \<^verbatim>\<open>std::mutex\<close>, which its owner
  cannot take again: \<open>held\<close> says whether the interrupted thread holds it.  When it
  does, the handler never comes back from taking the lock at line 205, and not
  returning is the value \<open>None\<close>.
\<close>

definition sig_handler :: "bool \<Rightarrow> state \<Rightarrow> state option" where
  "sig_handler held s =
     (let s0 = instance' s
      in if held then None
         else
           let s1 = emit Lock_run_mutex s0;
               s2 = emit (Store_program_on False) ((instance' s1)\<lparr>program_on := False\<rparr>);
               s3 = emit Unlock_run_mutex s2;
               s4 = emit Notify_all_run_var (instance' s3)
           in Some (emit (Syslog LOG_WARNING ''Caught termination signal'' []) s4))"

text \<open>\<^verbatim>\<open>SDR_RECORD::print_meta_data\<close> (lines 212 to 232).\<close>

definition meta_path :: "cmd_args \<Rightarrow> string" where
  "meta_path a =
     data_dir a @ ''/'' @ META_PREFIX
       @ setw_setfill 6 (CHR ''0'') (show_nat (unat (run_num a)))"

definition print_meta_data :: "env \<Rightarrow> state \<Rightarrow> state" where
  "print_meta_data e s =
     (let s1 = emit Clock_gettime s;
          buffer = meta_path (args s1);
          s2 = emit (Ofstream_open buffer) s1;
          t0 = (\<lparr>opened = None, failbit = False\<rparr>, files s2);
          t1 = ofstream_open e buffer t0;
          t2 = ofstream_put (''start_time: '' @ show_double (start_time e) @ newline) t1;
          t3 = ofstream_put
                 (''center_freq: '' @ show_nat (unat (rx_freq (args s2))) @ newline) t2;
          t4 = ofstream_put
                 (''sampling_freq: '' @ show_nat (unat (rate (args s2))) @ newline) t3;
          t5 = ofstream_put (''gain: '' @ show_double (gain (args s2)) @ newline) t4
      in emit Ofstream_close (s2\<lparr>files := snd t5\<rparr>))"

text \<open>
  \<^verbatim>\<open>SDR_RECORD::run\<close> (lines 239 to 258), in three parts: the statements before the
  loop, the loop, and the two calls after it.
\<close>

definition run_startup :: "env \<Rightarrow> state \<Rightarrow> state" where
  "run_startup e s =
     (let s1 = emit (Syslog LOG_DEBUG ''Printing metadata to file'' []) s;
          s2 = print_meta_data e s1
      in emits [Syslog LOG_INFO ''Starting threads'' [], StartProcessing, StartStreaming] s2)"

text \<open>
  The loop of lines 247 to 254.  Iteration \<open>k\<close> takes the lock and reads
  \<open>program_on\<close>; when it is set, it waits on the condition variable for at most 100
  milliseconds, releases the lock at the end of the block and starts over.  The
  handler of SIGINT runs on its own schedule: the environment says during which waits
  a signal is delivered.  While it waits the thread does not hold the lock, so the
  handler is entered with \<open>held = False\<close>.  The loop need not end: not returning is
  the value \<open>None\<close>.
\<close>

partial_function (option) wait_loop :: "env \<Rightarrow> nat \<Rightarrow> state \<Rightarrow> state option" where
  "wait_loop e k s =
     (let s1 = emits [Lock_run_mutex, Load_program_on (program_on s)] s
      in if program_on s1 then
           let s2 = emit (Wait_for_run_var 100) s1
           in if sigint_during_wait e k then
                (case sig_handler False s2 of
                   None \<Rightarrow> None
                 | Some s3 \<Rightarrow> wait_loop e (Suc k) (emit Unlock_run_mutex s3))
              else wait_loop e (Suc k) (emit Unlock_run_mutex s2)
         else Some (emit Unlock_run_mutex s1))"

definition run :: "env \<Rightarrow> state \<Rightarrow> state option" where
  "run e s =
     (case wait_loop e 0 (run_startup e s) of
        None \<Rightarrow> None
      | Some s' \<Rightarrow> Some (emits [StopStreaming, StopProcessing] s'))"

text \<open>\<^verbatim>\<open>main\<close> (lines 267 to 277): the exit status and the final state, or \<open>None\<close>
  when the process never ends.\<close>

definition main :: "env \<Rightarrow> options \<Rightarrow> state \<Rightarrow> (int \<times> state) option" where
  "main e opts s0 =
     (let s1 = emits [Openlog, Setlogmask_UPTO 4,
                      Syslog LOG_INFO ''Getting command line options'' []] s0;
          program = instance' s1
      in case init e opts program of
           (Inl status, s2) \<Rightarrow> Some (status, s2)
         | (Inr u, s2) \<Rightarrow>
             (case run e s2 of None \<Rightarrow> None | Some s3 \<Rightarrow> Some (0, s3)))"

text \<open>The state of a process that has not run anything yet.\<close>

definition process_start :: "filesystem \<Rightarrow> state" where
  "process_start fs =
     \<lparr> m_pInstance = False, args = cmd_args_default, program_on = True,
       sdr = False, dsp = False, localizer = False, files = fs, trace = [] \<rparr>"

section \<open>Vocabulary of the properties\<close>

subsection \<open>Validation, in the words of the specification\<close>

text \<open>
  The specification names five required fields, the order in which they are checked
  (run identifier, gain, output directory, center frequency, sample rate) and what
  makes each of them invalid.  \<open>first_offender\<close> is the first field of that order
  that is invalid.  \<open>report_of\<close> is the message the program logs for a field.
\<close>

datatype field = RunIdentifier | Gain | OutputDirectory | CenterFrequency | SampleRate

definition checking_order :: "field list" where
  "checking_order = [RunIdentifier, Gain, OutputDirectory, CenterFrequency, SampleRate]"

fun rejected :: "cmd_args \<Rightarrow> field \<Rightarrow> bool" where
  "rejected a RunIdentifier = (run_num a = 0)"
| "rejected a Gain = double_less (gain a) (Finite 0)"
| "rejected a OutputDirectory = (data_dir a = [])"
| "rejected a CenterFrequency = (rx_freq a = 0)"
| "rejected a SampleRate = (rate a = 0)"

definition first_offender :: "cmd_args \<Rightarrow> field option" where
  "first_offender a = find (rejected a) checking_order"


fun is_error_report :: "event \<Rightarrow> bool" where
  "is_error_report (Syslog LOG_ERR _ _) = True"
| "is_error_report (Syslog LOG_CRIT _ _) = True"
| "is_error_report (Syslog LOG_ALERT _ _) = True"
| "is_error_report (Syslog LOG_EMERG _ _) = True"
| "is_error_report _ = False"

definition error_reports :: "event list \<Rightarrow> event list" where
  "error_reports evs = filter is_error_report evs"

subsection \<open>What syslog delivers\<close>




subsection \<open>Kinds of events\<close>


text \<open>The calls \<^verbatim>\<open>process_args\<close> makes.\<close>

fun validation_event :: "event \<Rightarrow> bool" where
  "validation_event (Setlogmask_UPTO _) = True"
| "validation_event (Syslog _ _ _) = True"
| "validation_event Cout_desc = True"
| "validation_event _ = False"


fun is_open :: "event \<Rightarrow> bool" where
  "is_open (Ofstream_open _) = True"
| "is_open _ = False"

fun is_New_SDR :: "event \<Rightarrow> bool" where
  "is_New_SDR (New_SDR _ _ _) = True"
| "is_New_SDR _ = False"

text \<open>What the handler does when the controller exists, and the three shapes an
  iteration of the main loop can have.\<close>

definition handler_events :: "event list" where
  "handler_events =
     [Lock_run_mutex, Store_program_on False, Unlock_run_mutex, Notify_all_run_var,
      Syslog LOG_WARNING ''Caught termination signal'' []]"

definition quiet_iteration :: "event list" where
  "quiet_iteration =
     [Lock_run_mutex, Load_program_on True, Wait_for_run_var 100, Unlock_run_mutex]"

definition signalled_iteration :: "event list" where
  "signalled_iteration =
     [Lock_run_mutex, Load_program_on True, Wait_for_run_var 100] @ handler_events
       @ [Unlock_run_mutex]"

definition final_check :: "event list" where
  "final_check = [Lock_run_mutex, Load_program_on False, Unlock_run_mutex]"

definition startup_events :: "cmd_args \<Rightarrow> event list" where
  "startup_events a =
     [Syslog LOG_DEBUG ''Printing metadata to file'' [], Clock_gettime,
      Ofstream_open (meta_path a), Ofstream_close,
      Syslog LOG_INFO ''Starting threads'' [], StartProcessing, StartStreaming]"

subsection \<open>Reading a decimal number back\<close>

definition digit_value :: "char \<Rightarrow> nat" where
  "digit_value c = of_char c - 48"

definition read_nat :: "string \<Rightarrow> nat" where
  "read_nat ds = foldl (\<lambda>a c. 10 * a + digit_value c) 0 ds"

subsection \<open>The controller at the call of init\<close>

text \<open>The state in which \<^verbatim>\<open>main\<close> calls \<^verbatim>\<open>init\<close>, and the calls made up to there.\<close>

definition controller_created :: "filesystem \<Rightarrow> state" where
  "controller_created fs =
     instance' (emits [Openlog, Setlogmask_UPTO 4,
                       Syslog LOG_INFO ''Getting command line options'' []]
                  (process_start fs))"

definition created_events :: "event list" where
  "created_events =
     [Openlog, Setlogmask_UPTO 4, Syslog LOG_INFO ''Getting command line options'' [],
      New_SDR_RECORD, Syslog LOG_INFO ''Setting signal handler'' [], Signal_SIGINT]"

subsection \<open>The text of the metadata file\<close>

definition meta_text :: "env \<Rightarrow> cmd_args \<Rightarrow> string" where
  "meta_text e a =
     ''start_time: '' @ show_double (start_time e) @ newline
     @ ''center_freq: '' @ show_nat (unat (rx_freq a)) @ newline
     @ ''sampling_freq: '' @ show_nat (unat (rate a)) @ newline
     @ ''gain: '' @ show_double (gain a) @ newline"

subsection \<open>A sample run\<close>

text \<open>The end-to-end scenario of the specification: run 7, gain 30, two million
  samples per second at 150 MHz, output under \<^verbatim>\<open>/tmp/run\<close>; the signal arrives during
  the second wait.\<close>


definition options_sample :: options where
  "options_sample =
     \<lparr> opt_help = False, opt_gain = Some (Finite 30), opt_sampling_freq = Some 2000000,
       opt_center_freq = Some 150000000, opt_run = Some 7,
       opt_output = Some ''/tmp/run'', opt_verbose = None \<rparr>"

definition cmd_args_sample :: cmd_args where
  "cmd_args_sample =
     cmd_args_default\<lparr> gain := Finite 30, rate := 2000000, rx_freq := 150000000,
                       run_num := 7, data_dir := ''/tmp/run'' \<rparr>"

definition always :: "bool \<Rightarrow> 'a \<Rightarrow> bool" where
  "always b x = b"

definition at_wait :: "nat \<Rightarrow> nat \<Rightarrow> bool" where
  "at_wait n k = (k = n)"

definition env_sample :: env where
  "env_sample =
     \<lparr> can_open = always True, start_time = Finite 1700000000, sdr_throws = False,
       sigint_during_wait = at_wait 1 \<rparr>"

definition env_unwritable :: env where
  "env_unwritable = env_sample\<lparr>can_open := always False\<rparr>"

definition env_no_device :: env where
  "env_no_device = env_sample\<lparr>sdr_throws := True\<rparr>"

text \<open>The controller as \<^verbatim>\<open>init\<close> leaves it in the sample run, with an empty trace.\<close>

definition state_ready :: state where
  "state_ready =
     \<lparr> m_pInstance = True, args = cmd_args_sample, program_on = True,
       sdr = True, dsp = True, localizer = True, files = Map.empty, trace = [] \<rparr>"

text \<open>The controller when \<^verbatim>\<open>run\<close> returns in the sample run.\<close>

definition state_stopped :: state where
  "state_stopped =
     state_ready\<lparr> program_on := False,
       files := [meta_path cmd_args_sample \<mapsto> meta_text env_sample cmd_args_sample],
       trace := startup_events cmd_args_sample @ quiet_iteration @ signalled_iteration
                  @ final_check @ [StopStreaming, StopProcessing] \<rparr>"

text \<open>The calls of the whole sample run, from \<^verbatim>\<open>main\<close> on, and the state in which
  the process ends.\<close>

definition sample_trace :: "event list" where
  "sample_trace =
     [Openlog, Setlogmask_UPTO 4, Syslog LOG_INFO ''Getting command line options'' [],
      New_SDR_RECORD, Syslog LOG_INFO ''Setting signal handler'' [], Signal_SIGINT,
      Setlogmask_UPTO 0, Syslog LOG_INFO ''Sanity checking args'' [],
      Syslog LOG_DEBUG (''Got run_num as %lu'' @ newline) [ArgSize 7],
      Syslog LOG_DEBUG (''Got gain as %.2f'' @ newline) [ArgDouble (Finite 30)],
      Syslog LOG_DEBUG (''Got data_dir as %s'' @ newline) [ArgStr ''/tmp/run''],
      Syslog LOG_DEBUG (''Got rx_freq as %lu'' @ newline) [ArgSize 150000000],
      Syslog LOG_DEBUG (''Got rate as %lu'' @ newline) [ArgSize 2000000],
      Syslog LOG_INFO ''Initializing Radio'' [],
      New_SDR (Finite 30) 2000000 150000000, New_DSP_V3 2000000, New_PingLocalizer,
      Syslog LOG_DEBUG ''Printing metadata to file'' [], Clock_gettime,
      Ofstream_open ''/tmp/run/META_000007'', Ofstream_close,
      Syslog LOG_INFO ''Starting threads'' [], StartProcessing, StartStreaming,
      Lock_run_mutex, Load_program_on True, Wait_for_run_var 100, Unlock_run_mutex,
      Lock_run_mutex, Load_program_on True, Wait_for_run_var 100,
      Lock_run_mutex, Store_program_on False, Unlock_run_mutex, Notify_all_run_var,
      Syslog LOG_WARNING ''Caught termination signal'' [],
      Unlock_run_mutex,
      Lock_run_mutex, Load_program_on False, Unlock_run_mutex,
      StopStreaming, StopProcessing]"

definition state_exit :: "filesystem \<Rightarrow> state" where
  "state_exit fs = state_ready\<lparr>program_on := False, files := fs, trace := sample_trace\<rparr>"

section \<open>Properties\<close>

subsection \<open>Frame lemmas\<close>

lemma emit_sel [simp]:
  "trace (emit ev s) = trace s @ [ev]"
  "program_on (emit ev s) = program_on s"
  "m_pInstance (emit ev s) = m_pInstance s"
  "args (emit ev s) = args s"
  "files (emit ev s) = files s"
  by (simp_all add: emit_def)

lemma emits_sel [simp]:
  "trace (emits evs s) = trace s @ evs"
  "program_on (emits evs s) = program_on s"
  "m_pInstance (emits evs s) = m_pInstance s"
  "args (emits evs s) = args s"
  "files (emits evs s) = files s"
  by (simp_all add: emits_def)

lemma events_since_append [simp]: "events_since s (s'\<lparr>trace := trace s @ evs\<rparr>) = evs"
  by (simp add: events_since_def)

subsection \<open>Validation\<close>

lemma process_args_args: "args (snd (process_args opts s)) = notify opts (args s)"
  by (simp add: process_args_def Let_def)


lemma process_args_Inr_iff:
  "fst (process_args opts s) = Inr () \<longleftrightarrow>
     \<not> opt_help opts \<and> first_offender (notify opts (args s)) = None"
  by (simp add: process_args_def Let_def first_offender_def checking_order_def)

lemma process_args_Inl: "fst (process_args opts s) = Inl c \<Longrightarrow> c = 0"
  by (simp add: process_args_def Let_def split: if_splits)





subsection \<open>The signal handler\<close>

lemma sig_handler_running:
  "m_pInstance s \<Longrightarrow>
     sig_handler False s = Some (s\<lparr>program_on := False, trace := trace s @ handler_events\<rparr>)"
  by (simp add: sig_handler_def instance'_def emit_def Let_def handler_events_def)



subsection \<open>Recording the metadata\<close>

lemma print_meta_data_files:
  "files (print_meta_data e s) =
     (if can_open e (meta_path (args s))
      then (files s)(meta_path (args s) \<mapsto> meta_text e (args s))
      else files s)"
  by (simp add: print_meta_data_def Let_def ofstream_open_def ofstream_put_def meta_text_def)

lemma print_meta_data_eq:
  "print_meta_data e s =
     s\<lparr> files := (if can_open e (meta_path (args s))
                   then (files s)(meta_path (args s) \<mapsto> meta_text e (args s))
                   else files s),
        trace := trace s @ [Clock_gettime, Ofstream_open (meta_path (args s)), Ofstream_close] \<rparr>"
  by (simp add: print_meta_data_def Let_def ofstream_open_def ofstream_put_def meta_text_def
        emit_def)

lemma run_startup_eq:
  "run_startup e s =
     s\<lparr> files := (if can_open e (meta_path (args s))
                   then (files s)(meta_path (args s) \<mapsto> meta_text e (args s))
                   else files s),
        trace := trace s @ startup_events (args s) \<rparr>"
  by (simp add: run_startup_def Let_def print_meta_data_eq emit_def emits_def
        startup_events_def)

subsection \<open>The main loop\<close>


lemma wait_loop_stopped:
  "\<not> program_on s \<Longrightarrow>
     wait_loop e k s = Some (s\<lparr>trace := trace s @ final_check\<rparr>)"
  by (subst wait_loop.simps) (simp add: emit_def emits_def Let_def final_check_def)

lemma wait_loop_quiet:
  "program_on s \<Longrightarrow> \<not> sigint_during_wait e k \<Longrightarrow>
     wait_loop e k s = wait_loop e (Suc k) (s\<lparr>trace := trace s @ quiet_iteration\<rparr>)"
  by (subst wait_loop.simps) (simp add: emit_def emits_def Let_def quiet_iteration_def)

lemma wait_loop_signalled:
  "program_on s \<Longrightarrow> m_pInstance s \<Longrightarrow> sigint_during_wait e k \<Longrightarrow>
     wait_loop e k s =
       Some (s\<lparr>program_on := False,
               trace := trace s @ signalled_iteration @ final_check\<rparr>)"
  apply (subst wait_loop.simps)
  apply (simp add: Let_def emits_def emit_def sig_handler_running signalled_iteration_def)
  apply (subst wait_loop_stopped)
   apply (simp_all add: handler_events_def)
  done

lemma wait_loop_until_signal:
  assumes "program_on s" "m_pInstance s" "sigint_during_wait e (k + n)"
    "\<forall>j<n. \<not> sigint_during_wait e (k + j)"
  shows "wait_loop e k s =
           Some (s\<lparr>program_on := False,
                   trace := trace s @ concat (replicate n quiet_iteration)
                              @ signalled_iteration @ final_check\<rparr>)"
  using assms
proof (induction n arbitrary: k s)
  case 0
  then show ?case by (simp add: wait_loop_signalled)
next
  case (Suc n)
  have q: "\<not> sigint_during_wait e k" using Suc.prems(4) by force
  let ?s = "s\<lparr>trace := trace s @ quiet_iteration\<rparr>"
  have "wait_loop e k s = wait_loop e (Suc k) ?s"
    using Suc.prems(1) q by (rule wait_loop_quiet)
  also have "\<dots> = Some (?s\<lparr>program_on := False,
                   trace := trace ?s @ concat (replicate n quiet_iteration)
                              @ signalled_iteration @ final_check\<rparr>)"
  proof (rule Suc.IH)
    show "program_on ?s" using Suc.prems(1) by simp
    show "m_pInstance ?s" using Suc.prems(2) by simp
    show "sigint_during_wait e (Suc k + n)" using Suc.prems(3) by simp
    show "\<forall>j<n. \<not> sigint_during_wait e (Suc k + j)"
      using Suc.prems(4) by (metis add_Suc_shift Suc_less_eq)
  qed
  finally show ?case by simp
qed



subsection \<open>Leaving the loop\<close>

text \<open>
  Claim C9.  Every iteration of the main loop takes the lock anew and reads
  \<open>program_on\<close> again; when the flag is set it waits with a timeout of 100
  milliseconds, never without one; the first iteration that reads the flag as cleared
  leaves the loop.  So a loop entered with the flag cleared leaves at its first check,
  and when the handler clears the flag during the wait of iteration \<open>n\<close>, the loop
  finishes that one bounded wait, takes the lock once more, reads the flag and leaves:
  no further wait is started after the flag was cleared, whether or not the
  notification of the handler was received.
\<close>

theorem wait_loop_leaves_after_signal:
  "(\<not> program_on s \<longrightarrow>
      wait_loop e 0 s = Some (s\<lparr>trace := trace s @ final_check\<rparr>))
   \<and> (program_on s \<and> m_pInstance s \<and> sigint_during_wait e n
        \<and> (\<forall>j<n. \<not> sigint_during_wait e j) \<longrightarrow>
      wait_loop e 0 s =
        Some (s\<lparr>program_on := False,
                trace := trace s @ concat (replicate n quiet_iteration)
                           @ signalled_iteration @ final_check\<rparr>))"
  using wait_loop_stopped [of s e 0] wait_loop_until_signal [of s e 0 n] by simp

theorem wait_loop_leaves_after_signal_witness:
  "program_on state_ready \<and> m_pInstance state_ready \<and> sigint_during_wait env_sample 1
     \<and> \<not> sigint_during_wait env_sample 0
     \<and> wait_loop env_sample 0 state_ready =
         Some (state_ready\<lparr>program_on := False,
                 trace := quiet_iteration @ signalled_iteration @ final_check\<rparr>)"
proof -
  have h: "program_on state_ready \<and> m_pInstance state_ready
             \<and> sigint_during_wait env_sample 1 \<and> (\<forall>j<1. \<not> sigint_during_wait env_sample j)"
    by (simp add: state_ready_def env_sample_def at_wait_def)
  show ?thesis
    using h wait_loop_leaves_after_signal [of state_ready env_sample 1]
    by (simp add: state_ready_def env_sample_def at_wait_def)
qed

subsection \<open>After the loop\<close>

lemma run_until_signal:
  assumes "program_on s" "m_pInstance s" "sigint_during_wait e n"
    "\<forall>j<n. \<not> sigint_during_wait e j"
  shows "run e s =
           Some ((run_startup e s)\<lparr>program_on := False,
                   trace := trace s @ startup_events (args s)
                              @ concat (replicate n quiet_iteration)
                              @ signalled_iteration @ final_check
                              @ [StopStreaming, StopProcessing]\<rparr>)"
proof -
  have "wait_loop e (0 + 0) (run_startup e s) =
          Some ((run_startup e s)\<lparr>program_on := False,
                  trace := trace (run_startup e s) @ concat (replicate n quiet_iteration)
                             @ signalled_iteration @ final_check\<rparr>)"
    using assms by (simp add: wait_loop_until_signal [of _ _ 0 n] run_startup_eq)
  then show ?thesis
    by (simp add: run_def emits_def run_startup_eq)
qed




subsection \<open>From main to init\<close>

lemma controller_created_eq:
  "controller_created fs =
     (process_start fs)\<lparr>m_pInstance := True, trace := created_events\<rparr>"
  by (simp add: controller_created_def instance'_def process_start_def emits_def emit_def
        SDR_RECORD_ctor_def created_events_def)

lemma controller_created_sel [simp]:
  "args (controller_created fs) = cmd_args_default"
  "m_pInstance (controller_created fs)"
  "program_on (controller_created fs)"
  "files (controller_created fs) = fs"
  "trace (controller_created fs) = created_events"
  by (simp_all add: controller_created_eq process_start_def)

lemma process_args_validation_events:
  "\<exists>evs. trace (snd (process_args opts s)) = trace s @ evs \<and> list_all validation_event evs"
  by (simp add: process_args_def Let_def)

lemma validation_event_kind:
  "validation_event ev \<Longrightarrow>
     \<not> is_New_SDR ev \<and> \<not> is_open ev \<and> ev \<noteq> StartProcessing \<and> ev \<noteq> StartStreaming"
  by (cases ev) simp_all

lemma validation_events_kind:
  "list_all validation_event evs \<Longrightarrow>
     filter is_New_SDR evs = [] \<and> filter is_open evs = []
       \<and> StartProcessing \<notin> set evs \<and> StartStreaming \<notin> set evs"
  by (induction evs) (auto dest: validation_event_kind)

lemma process_args_exit:
  "opt_help opts \<or> first_offender (notify opts (args s)) \<noteq> None \<Longrightarrow>
     fst (process_args opts s) = Inl 0
       \<and> last (trace (snd (process_args opts s))) = Cout_desc"
  by (auto simp: process_args_def Let_def first_offender_def checking_order_def
        split: if_splits)

lemma missing_option_offends:
  assumes "opt_gain opts = None \<or> opt_sampling_freq opts = None \<or> opt_center_freq opts = None
             \<or> opt_run opts = None \<or> opt_output opts = None"
  shows "first_offender (notify opts cmd_args_default) \<noteq> None"
  using assms
  by (auto simp: first_offender_def checking_order_def notify_def stored_def
        cmd_args_default_def)

lemma init_exit:
  "fst (process_args opts s) = Inl c \<Longrightarrow> init e opts s = (Inl c, snd (process_args opts s))"
  by (cases "process_args opts s") (simp add: init_def)

lemma init_throws:
  "fst (process_args opts s) = Inr () \<Longrightarrow> sdr_throws e \<Longrightarrow>
     init e opts s =
       (Inl 1, emits [Syslog LOG_INFO ''Initializing Radio'' [],
                      New_SDR (gain (notify opts (args s))) (rate (notify opts (args s)))
                        (rx_freq (notify opts (args s))),
                      Syslog LOG_CRIT ''No devices found!'' []]
                 (snd (process_args opts s)))"
  using process_args_args [of opts s]
  by (cases "process_args opts s") (simp add: init_def Let_def emits_def emit_def)


lemma main_init:
  "main e opts (process_start fs) =
     (case init e opts (controller_created fs) of
        (Inl status, s2) \<Rightarrow> Some (status, s2)
      | (Inr u, s2) \<Rightarrow> (case run e s2 of None \<Rightarrow> None | Some s3 \<Rightarrow> Some (0, s3)))"
  by (simp add: main_def controller_created_def Let_def)

subsection \<open>A missing option\<close>

text \<open>
  Claim C6.  When one of the options gain, sampling\_freq, center\_freq, run and output
  is missing from the command line, the process prints the usage text as its last
  action and exits with status 0, without constructing the radio or starting a
  thread; a request for help ends the same way, with the same status.
\<close>

theorem missing_option_exits_zero:
  assumes "opt_gain opts = None \<or> opt_sampling_freq opts = None \<or> opt_center_freq opts = None
             \<or> opt_run opts = None \<or> opt_output opts = None"
  shows "(\<exists>s'. main e opts (process_start fs) = Some (0, s')
               \<and> last (trace s') = Cout_desc \<and> filter is_New_SDR (trace s') = []
               \<and> StartStreaming \<notin> set (trace s'))
       \<and> (\<exists>s'. main e (opts\<lparr>opt_help := True\<rparr>) (process_start fs) = Some (0, s')
               \<and> last (trace s') = Cout_desc)"
proof -
  have inv: "opt_help o' \<or> first_offender (notify o' cmd_args_default) \<noteq> None \<Longrightarrow>
               \<exists>s'. main e o' (process_start fs) = Some (0, s')
                 \<and> last (trace s') = Cout_desc \<and> filter is_New_SDR (trace s') = []
                 \<and> StartStreaming \<notin> set (trace s')" for o'
  proof -
    assume a: "opt_help o' \<or> first_offender (notify o' cmd_args_default) \<noteq> None"
    let ?s = "snd (process_args o' (controller_created fs))"
    have ex: "fst (process_args o' (controller_created fs)) = Inl 0"
      "last (trace ?s) = Cout_desc"
      using process_args_exit [of o' "controller_created fs"] a by simp_all
    have m: "main e o' (process_start fs) = Some (0, ?s)"
      by (simp add: main_init init_exit [OF ex(1)])
    obtain evs where evs: "trace ?s = created_events @ evs" "list_all validation_event evs"
      using process_args_validation_events [of o' "controller_created fs"] by auto
    have "filter is_New_SDR (trace ?s) = []" "StartStreaming \<notin> set (trace ?s)"
      using validation_events_kind [OF evs(2)] evs(1) by (simp_all add: created_events_def)
    with m ex(2) show ?thesis by blast
  qed
  have "opt_help opts \<or> first_offender (notify opts cmd_args_default) \<noteq> None"
    using missing_option_offends [OF assms] by simp
  from inv [OF this] have 1: "\<exists>s'. main e opts (process_start fs) = Some (0, s')
               \<and> last (trace s') = Cout_desc \<and> filter is_New_SDR (trace s') = []
               \<and> StartStreaming \<notin> set (trace s')" .
  have "opt_help (opts\<lparr>opt_help := True\<rparr>)
          \<or> first_offender (notify (opts\<lparr>opt_help := True\<rparr>) cmd_args_default) \<noteq> None"
    by simp
  from inv [OF this] have 2: "\<exists>s'. main e (opts\<lparr>opt_help := True\<rparr>) (process_start fs) = Some (0, s')
               \<and> last (trace s') = Cout_desc"
    by blast
  from 1 2 show ?thesis by blast
qed

theorem missing_option_exits_zero_witness:
  "opt_center_freq (options_sample\<lparr>opt_center_freq := None\<rparr>) = None
   \<and> (\<exists>s'. main env_sample (options_sample\<lparr>opt_center_freq := None\<rparr>)
               (process_start Map.empty) = Some (0, s')
            \<and> last (trace s') = Cout_desc)"
proof -
  have h: "opt_gain (options_sample\<lparr>opt_center_freq := None\<rparr>) = None
      \<or> opt_sampling_freq (options_sample\<lparr>opt_center_freq := None\<rparr>) = None
      \<or> opt_center_freq (options_sample\<lparr>opt_center_freq := None\<rparr>) = None
      \<or> opt_run (options_sample\<lparr>opt_center_freq := None\<rparr>) = None
      \<or> opt_output (options_sample\<lparr>opt_center_freq := None\<rparr>) = None"
    by simp
  have "opt_center_freq (options_sample\<lparr>opt_center_freq := None\<rparr>) = None"
    by simp
  then show ?thesis
    using missing_option_exits_zero [OF h, of env_sample Map.empty] by blast
qed

subsection \<open>No device\<close>

text \<open>
  Claim C7.  When the constructor of the stream source throws because no device is
  found, and the command line was valid, the process exits with status 1 after having
  logged the failure; the constructor was called exactly once, and no thread was
  started.  Status 1 differs from the status of an exit for help or for an invalid
  command line, which is 0.
\<close>

theorem no_device_exit_status:
  assumes "sdr_throws e" and "\<not> opt_help opts"
    and "first_offender (notify opts cmd_args_default) = None"
  shows "(\<exists>s'. main e opts (process_start fs) = Some (1, s')
               \<and> length (filter is_New_SDR (trace s')) = 1
               \<and> last (trace s') = Syslog LOG_CRIT ''No devices found!'' []
               \<and> StartProcessing \<notin> set (trace s') \<and> StartStreaming \<notin> set (trace s'))
       \<and> (\<forall>opts' s c. fst (process_args opts' s) = Inl c \<longrightarrow> c = 0)"
proof -
  let ?c = "controller_created fs"
  let ?s = "snd (process_args opts ?c)"
  let ?evs = "[Syslog LOG_INFO ''Initializing Radio'' [],
               New_SDR (gain (notify opts (args ?c))) (rate (notify opts (args ?c)))
                 (rx_freq (notify opts (args ?c))),
               Syslog LOG_CRIT ''No devices found!'' []]"
  have ok: "fst (process_args opts ?c) = Inr ()"
    using assms(2,3) by (simp add: process_args_Inr_iff)
  have m: "main e opts (process_start fs) = Some (1, emits ?evs ?s)"
    by (simp add: main_init init_throws [OF ok assms(1)])
  obtain evs where evs: "trace ?s = created_events @ evs" "list_all validation_event evs"
    using process_args_validation_events [of opts ?c] by auto
  have "length (filter is_New_SDR (trace (emits ?evs ?s))) = 1"
    "last (trace (emits ?evs ?s)) = Syslog LOG_CRIT ''No devices found!'' []"
    "StartProcessing \<notin> set (trace (emits ?evs ?s))"
    "StartStreaming \<notin> set (trace (emits ?evs ?s))"
    using validation_events_kind [OF evs(2)] evs(1) by (simp_all add: created_events_def)
  with m have "\<exists>s'. main e opts (process_start fs) = Some (1, s')
               \<and> length (filter is_New_SDR (trace s')) = 1
               \<and> last (trace s') = Syslog LOG_CRIT ''No devices found!'' []
               \<and> StartProcessing \<notin> set (trace s') \<and> StartStreaming \<notin> set (trace s')"
    by blast
  moreover have "\<forall>opts' s c. fst (process_args opts' s) = Inl c \<longrightarrow> c = 0"
    using process_args_Inl by blast
  ultimately show ?thesis by blast
qed

lemma options_sample_valid:
  "\<not> opt_help options_sample \<and> first_offender (notify options_sample cmd_args_default) = None"
  by (simp add: options_sample_def first_offender_def checking_order_def notify_def
        stored_def cmd_args_default_def)

theorem no_device_exit_status_witness:
  "sdr_throws env_no_device \<and> \<not> opt_help options_sample
   \<and> first_offender (notify options_sample cmd_args_default) = None
   \<and> (\<exists>s'. main env_no_device options_sample (process_start Map.empty) = Some (1, s')
            \<and> length (filter is_New_SDR (trace s')) = 1)"
proof -
  have h: "sdr_throws env_no_device" by (simp add: env_no_device_def)
  have v: "\<not> opt_help options_sample"
    "first_offender (notify options_sample cmd_args_default) = None"
    using options_sample_valid by simp_all
  show ?thesis
    using h v no_device_exit_status [OF h v, of Map.empty] by blast
qed

subsection \<open>Omitted options and defaults\<close>

text \<open>
  Claim C10.  The fields of a fresh controller hold the defaults gain \<open>-1\<close>, run
  number, sample rate and center frequency 0, and the empty output directory.
  \<^verbatim>\<open>process_args\<close> on a fresh controller gives the same result, state included,
  whether a required option is left out or given with the value of its default: it
  never looks at whether the option was present.  Left out, the option makes the
  process exit through the check of its field.  A gain given as 0 passes the check,
  and the function returns when the other four fields are valid.
\<close>

theorem omitted_option_is_default_value:
  assumes "args s = cmd_args_default"
  shows "(gain cmd_args_default = Finite (- 1) \<and> run_num cmd_args_default = 0
          \<and> rate cmd_args_default = 0 \<and> rx_freq cmd_args_default = 0
          \<and> data_dir cmd_args_default = [])
       \<and> process_args (opts\<lparr>opt_gain := None\<rparr>) s
           = process_args (opts\<lparr>opt_gain := Some (Finite (- 1))\<rparr>) s
       \<and> process_args (opts\<lparr>opt_run := None\<rparr>) s
           = process_args (opts\<lparr>opt_run := Some 0\<rparr>) s
       \<and> process_args (opts\<lparr>opt_sampling_freq := None\<rparr>) s
           = process_args (opts\<lparr>opt_sampling_freq := Some 0\<rparr>) s
       \<and> process_args (opts\<lparr>opt_center_freq := None\<rparr>) s
           = process_args (opts\<lparr>opt_center_freq := Some 0\<rparr>) s
       \<and> process_args (opts\<lparr>opt_output := None\<rparr>) s
           = process_args (opts\<lparr>opt_output := Some []\<rparr>) s
       \<and> ((opt_gain opts = None \<or> opt_run opts = None \<or> opt_sampling_freq opts = None
            \<or> opt_center_freq opts = None \<or> opt_output opts = None)
           \<longrightarrow> fst (process_args opts s) = Inl 0)
       \<and> (\<not> opt_help opts \<and> opt_gain opts = Some (Finite 0)
            \<and> first_offender ((notify opts (args s))\<lparr>gain := Finite 1\<rparr>) = None
           \<longrightarrow> fst (process_args opts s) = Inr ())"
proof -
  have d: "gain cmd_args_default = Finite (- 1) \<and> run_num cmd_args_default = 0
       \<and> rate cmd_args_default = 0 \<and> rx_freq cmd_args_default = 0
       \<and> data_dir cmd_args_default = []"
    by (simp add: cmd_args_default_def)
  have n: "notify (opts\<lparr>opt_gain := None\<rparr>) (args s)
             = notify (opts\<lparr>opt_gain := Some (Finite (- 1))\<rparr>) (args s)"
    "notify (opts\<lparr>opt_run := None\<rparr>) (args s) = notify (opts\<lparr>opt_run := Some 0\<rparr>) (args s)"
    "notify (opts\<lparr>opt_sampling_freq := None\<rparr>) (args s)
             = notify (opts\<lparr>opt_sampling_freq := Some 0\<rparr>) (args s)"
    "notify (opts\<lparr>opt_center_freq := None\<rparr>) (args s)
             = notify (opts\<lparr>opt_center_freq := Some 0\<rparr>) (args s)"
    "notify (opts\<lparr>opt_output := None\<rparr>) (args s)
             = notify (opts\<lparr>opt_output := Some []\<rparr>) (args s)"
    using assms by (simp_all add: notify_def stored_def cmd_args_default_def)
  have g: "process_args (opts\<lparr>opt_gain := None\<rparr>) s
           = process_args (opts\<lparr>opt_gain := Some (Finite (- 1))\<rparr>) s"
    unfolding process_args_def n(1) by simp
  have r: "process_args (opts\<lparr>opt_run := None\<rparr>) s
           = process_args (opts\<lparr>opt_run := Some 0\<rparr>) s"
    unfolding process_args_def n(2) by simp
  have f: "process_args (opts\<lparr>opt_sampling_freq := None\<rparr>) s
           = process_args (opts\<lparr>opt_sampling_freq := Some 0\<rparr>) s"
    unfolding process_args_def n(3) by simp
  have c: "process_args (opts\<lparr>opt_center_freq := None\<rparr>) s
           = process_args (opts\<lparr>opt_center_freq := Some 0\<rparr>) s"
    unfolding process_args_def n(4) by simp
  have o: "process_args (opts\<lparr>opt_output := None\<rparr>) s
           = process_args (opts\<lparr>opt_output := Some []\<rparr>) s"
    unfolding process_args_def n(5) by simp
  have m: "(opt_gain opts = None \<or> opt_run opts = None \<or> opt_sampling_freq opts = None
            \<or> opt_center_freq opts = None \<or> opt_output opts = None)
           \<longrightarrow> fst (process_args opts s) = Inl 0"
    using missing_option_offends [of opts] process_args_exit [of opts s] assms by auto
  have z: "\<not> opt_help opts \<and> opt_gain opts = Some (Finite 0)
           \<and> first_offender ((notify opts (args s))\<lparr>gain := Finite 1\<rparr>) = None
           \<longrightarrow> fst (process_args opts s) = Inr ()"
    by (auto simp: process_args_Inr_iff first_offender_def checking_order_def notify_def
          stored_def split: if_splits)
  from d g r f c o m z show ?thesis by blast
qed

theorem omitted_option_is_default_value_witness:
  "args (controller_created Map.empty) = cmd_args_default
   \<and> process_args (options_sample\<lparr>opt_gain := None\<rparr>) (controller_created Map.empty)
       = process_args (options_sample\<lparr>opt_gain := Some (Finite (- 1))\<rparr>)
           (controller_created Map.empty)
   \<and> fst (process_args (options_sample\<lparr>opt_gain := None\<rparr>) (controller_created Map.empty))
       = Inl 0
   \<and> fst (process_args (options_sample\<lparr>opt_gain := Some (Finite 0)\<rparr>)
            (controller_created Map.empty)) = Inr ()"
proof -
  have h: "args (controller_created Map.empty) = cmd_args_default" by simp
  have v: "first_offender
             ((notify (options_sample\<lparr>opt_gain := Some (Finite 0)\<rparr>)
                 (args (controller_created Map.empty)))\<lparr>gain := Finite 1\<rparr>) = None"
    by (simp add: options_sample_def first_offender_def checking_order_def notify_def
          stored_def cmd_args_default_def)
  show ?thesis
    using h v
      omitted_option_is_default_value [OF h, of "options_sample"]
      omitted_option_is_default_value [OF h, of "options_sample\<lparr>opt_gain := None\<rparr>"]
      omitted_option_is_default_value [OF h, of "options_sample\<lparr>opt_gain := Some (Finite 0)\<rparr>"]
    by (simp add: options_sample_def)
qed

subsection \<open>What the handler does\<close>




subsection \<open>The whole run\<close>












subsection \<open>The recording step and the threads\<close>


subsection \<open>The sample run, evaluated\<close>

lemma floor_numeral_div: "\<lfloor>(numeral a :: rat) / numeral b\<rfloor> = numeral a div numeral b"
  using floor_divide_of_int_eq [of "numeral a" "numeral b", where ?'a = rat] by simp

lemma show_nat_7: "show_nat 7 = ''7''"
  by (simp add: show_nat.simps digit_char_def)

lemma setw_7: "setw_setfill 6 (CHR ''0'') ''7'' = ''000007''"
  by (simp add: setw_setfill_def eval_nat_numeral)

lemma meta_path_sample: "meta_path cmd_args_sample = ''/tmp/run/META_000007''"
  by (simp add: meta_path_def cmd_args_sample_def cmd_args_default_def META_PREFIX_def
        show_nat_7 setw_7)

lemma show_g6_start: "show_g6 1700000000 = ''1.7e+09''"
proof -
  have e: "dec_exponent 1700000000 = 9"
    by (simp add: dec_exponent_def compute_floorlog)
  have s: "sig6 1700000000 = (170000, 9)"
    by (simp add: sig6_def e scale10_def round_half_even_def)
  have n: "show_nat 170000 = ''170000''" "show_nat 9 = ''9''"
    by (simp_all add: show_nat.simps digit_char_def)
  show ?thesis
    by (simp add: show_g6_def s n with_point_def strip_zeros_def setw_setfill_def)
qed

lemma show_g6_30: "show_g6 30 = ''30''"
proof -
  have e: "dec_exponent 30 = 1"
    by (simp add: dec_exponent_def compute_floorlog)
  have s: "sig6 30 = (300000, 1)"
    by (simp add: sig6_def e scale10_def round_half_even_def)
  have n: "show_nat 300000 = ''300000''"
    by (simp add: show_nat.simps digit_char_def)
  show ?thesis
    by (simp add: show_g6_def s n with_point_def strip_zeros_def)
qed

lemma show_g6_1234567: "show_g6 1234567 = ''1.23457e+06''"
proof -
  have e: "dec_exponent 1234567 = 6"
    by (simp add: dec_exponent_def compute_floorlog)
  have s: "sig6 1234567 = (123457, 6)"
    by (simp add: sig6_def e scale10_def round_half_even_def Let_def floor_numeral_div)
  have n: "show_nat 123457 = ''123457''" "show_nat 6 = ''6''"
    by (simp_all add: show_nat.simps digit_char_def)
  show ?thesis
    by (simp add: show_g6_def s n with_point_def strip_zeros_def setw_setfill_def)
qed

lemma show_nat_freq: "show_nat 150000000 = ''150000000''"
  by (simp add: show_nat.simps digit_char_def)

lemma show_nat_rate: "show_nat 2000000 = ''2000000''"
  by (simp add: show_nat.simps digit_char_def)

lemma meta_text_sample:
  "meta_text env_sample cmd_args_sample =
     ''start_time: 1.7e+09'' @ newline @ ''center_freq: 150000000'' @ newline
       @ ''sampling_freq: 2000000'' @ newline @ ''gain: 30'' @ newline"
  by (simp add: meta_text_def env_sample_def cmd_args_sample_def cmd_args_default_def
        show_g6_start show_g6_30 show_nat_freq show_nat_rate)

lemma init_sample:
  "\<not> sdr_throws e \<Longrightarrow>
   init e options_sample (controller_created fs) =
     (Inr (), state_ready\<lparr>files := fs, trace := take 17 sample_trace\<rparr>)"
  by (simp add: init_def process_args_def Let_def options_sample_def notify_def stored_def
        controller_created_eq process_start_def created_events_def cmd_args_default_def
        emit_def emits_def state_ready_def cmd_args_sample_def sample_trace_def)

lemma main_sample_exit:
  assumes "\<not> sdr_throws e" "sigint_during_wait e = at_wait 1"
  shows "main e options_sample (process_start fs) =
           Some (0, state_exit (if can_open e ''/tmp/run/META_000007''
                                then fs(''/tmp/run/META_000007'' \<mapsto> meta_text e cmd_args_sample)
                                else fs))"
proof -
  let ?s2 = "state_ready\<lparr>files := fs, trace := take 17 sample_trace\<rparr>"
  have h: "program_on ?s2" "m_pInstance ?s2" "sigint_during_wait e 1"
    "\<forall>j<1. \<not> sigint_during_wait e j"
    using assms(2) by (simp_all add: state_ready_def at_wait_def)
  have a: "args ?s2 = cmd_args_sample" by (simp add: state_ready_def)
  have m: "main e options_sample (process_start fs) =
             (case run e ?s2 of None \<Rightarrow> None | Some s3 \<Rightarrow> Some (0, s3))"
    by (simp add: main_init init_sample [OF assms(1)])
  show ?thesis
    unfolding m run_until_signal [OF h]
    by (simp add: run_startup_eq a meta_path_sample state_exit_def
          state_ready_def sample_trace_def startup_events_def quiet_iteration_def
          signalled_iteration_def handler_events_def final_check_def)
qed



lemma env_unwritable_sel:
  "can_open env_unwritable p = False" "sdr_throws env_unwritable = False"
  "sigint_during_wait env_unwritable = at_wait 1" "start_time env_unwritable = Finite 1700000000"
  by (simp_all add: env_unwritable_def env_sample_def always_def)

lemma main_unwritable:
  "main env_unwritable options_sample (process_start Map.empty) = Some (0, state_exit Map.empty)"
  using main_sample_exit [of env_unwritable Map.empty]
  by (simp add: env_unwritable_sel)


subsection \<open>When the file cannot be opened\<close>

text \<open>
  Claim C4, as the code has it.  When the metadata file cannot be opened,
  \<^verbatim>\<open>print_meta_data\<close> makes its clock, open and close calls and returns: it writes
  no file, logs nothing and changes nothing else.  \<^verbatim>\<open>run\<close> goes on: after the three
  calls it starts the processing thread and the streaming thread, and no error has
  been reported.
\<close>

theorem open_failure_is_ignored:
  assumes "\<not> can_open e (meta_path (args s))"
  shows "print_meta_data e s =
           s\<lparr>trace := trace s @ [Clock_gettime, Ofstream_open (meta_path (args s)),
                                 Ofstream_close]\<rparr>
       \<and> run_startup e s =
           s\<lparr>trace := trace s @ [Syslog LOG_DEBUG ''Printing metadata to file'' [],
                                 Clock_gettime, Ofstream_open (meta_path (args s)),
                                 Ofstream_close, Syslog LOG_INFO ''Starting threads'' [],
                                 StartProcessing, StartStreaming]\<rparr>
       \<and> error_reports (events_since s (run_startup e s)) = []"
  using assms
  by (simp add: print_meta_data_eq run_startup_eq startup_events_def error_reports_def)

theorem open_failure_is_ignored_witness:
  "\<not> can_open env_unwritable (meta_path (args state_ready))
   \<and> print_meta_data env_unwritable state_ready =
       state_ready\<lparr>trace := [Clock_gettime, Ofstream_open ''/tmp/run/META_000007'',
                              Ofstream_close]\<rparr>"
proof -
  have h: "\<not> can_open env_unwritable (meta_path (args state_ready))"
    by (simp add: env_unwritable_sel)
  have a: "args state_ready = cmd_args_sample" "trace state_ready = []"
    by (simp_all add: state_ready_def)
  show ?thesis
    using h open_failure_is_ignored [OF h] by (simp add: a meta_path_sample)
qed

lemma run_unwritable:
  "run env_unwritable state_ready = Some (state_stopped\<lparr>files := Map.empty\<rparr>)"
proof -
  have h: "program_on state_ready" "m_pInstance state_ready"
    "sigint_during_wait env_unwritable 1" "\<forall>j<1. \<not> sigint_during_wait env_unwritable j"
    by (simp_all add: state_ready_def env_unwritable_sel at_wait_def)
  show ?thesis
    unfolding run_until_signal [OF h]
    by (simp add: run_startup_eq state_stopped_def state_ready_def env_unwritable_sel)
qed

text \<open>
  Claim C4 as the specification states it fails.  In the sample run with an output
  path that cannot be opened, \<^verbatim>\<open>run\<close> returns as it does when the file was written,
  both threads started and stopped, no error reported and no file written, and the
  process ends with status 0.
\<close>

theorem open_failure_not_fatal:
  "\<not> can_open env_unwritable (meta_path cmd_args_sample)
   \<and> run env_unwritable state_ready = Some (state_stopped\<lparr>files := Map.empty\<rparr>)
   \<and> trace (state_stopped\<lparr>files := Map.empty\<rparr>) = trace state_stopped
   \<and> StartProcessing \<in> set (trace state_stopped)
   \<and> StartStreaming \<in> set (trace state_stopped)
   \<and> error_reports (trace state_stopped) = []
   \<and> main env_unwritable options_sample (process_start Map.empty)
       = Some (0, state_exit Map.empty)
   \<and> error_reports (trace (state_exit Map.empty)) = []"
  using run_unwritable main_unwritable
  by (simp add: env_unwritable_sel state_stopped_def startup_events_def
        quiet_iteration_def signalled_iteration_def handler_events_def final_check_def
        error_reports_def state_exit_def sample_trace_def)

subsection \<open>Decimal output read back\<close>

lemma digit_value_digit_char: "d < 10 \<Longrightarrow> digit_value (digit_char d) = d"
proof -
  assume "d < 10"
  then have "d \<in> {0, 1, 2, 3, 4, 5, 6, 7, 8, 9}" by auto
  then show ?thesis
    by (auto simp: digit_char_def digit_value_def)
qed

lemma read_nat_snoc: "read_nat (ds @ [c]) = 10 * read_nat ds + digit_value c"
  by (simp add: read_nat_def)

lemma read_show_nat: "read_nat (show_nat n) = n"
proof (induction n rule: show_nat.induct)
  case (1 n)
  show ?case
  proof (cases "n < 10")
    case True
    then show ?thesis
      by (subst show_nat.simps) (simp add: read_nat_def digit_value_digit_char)
  next
    case False
    then have "read_nat (show_nat n) = 10 * read_nat (show_nat (n div 10))
                 + digit_value (digit_char (n mod 10))"
      by (subst show_nat.simps) (simp add: read_nat_snoc)
    also have "\<dots> = 10 * (n div 10) + n mod 10"
      using 1 False by (simp add: digit_value_digit_char)
    finally show ?thesis by simp
  qed
qed

lemma read_nat_zeros: "read_nat (replicate k (CHR ''0'') @ ds) = read_nat ds"
proof -
  have "foldl (\<lambda>a c. 10 * a + digit_value c) 0 (replicate k (CHR ''0'')) = 0"
    by (induction k) (simp_all add: digit_value_def)
  then show ?thesis by (simp add: read_nat_def)
qed

lemma read_setw: "read_nat (setw_setfill w (CHR ''0'') (show_nat n)) = n"
  by (simp add: setw_setfill_def read_nat_zeros read_show_nat)

subsection \<open>Whole numbers below a million are printed in full\<close>

lemma show_nat_times10: "0 < m \<Longrightarrow> show_nat (m * 10) = show_nat m @ ''0''"
  by (subst show_nat.simps) (simp add: digit_char_def)

lemma show_nat_pow10: "0 < m \<Longrightarrow> show_nat (m * 10 ^ k) = show_nat m @ replicate k (CHR ''0'')"
proof (induction k)
  case 0
  then show ?case by simp
next
  case (Suc k)
  have "show_nat (m * 10 ^ Suc k) = show_nat ((m * 10 ^ k) * 10)"
    by (simp add: ac_simps)
  also have "\<dots> = show_nat (m * 10 ^ k) @ ''0''"
    using Suc.prems by (intro show_nat_times10) simp
  also have "\<dots> = show_nat m @ replicate (Suc k) (CHR ''0'')"
    using Suc by (simp add: replicate_append_same)
  finally show ?case .
qed

lemma length_show_nat: "0 < n \<Longrightarrow> length (show_nat n) = floorlog 10 n"
proof (induction n rule: show_nat.induct)
  case (1 n)
  show ?case
  proof (cases "n < 10")
    case True
    have "floorlog 10 n = floorlog 10 (n div 10) + 1"
      using "1.prems" by (subst compute_floorlog) simp
    also have "\<dots> = 1" using True by (simp add: floorlog_eq_zero_iff)
    finally show ?thesis using True by (subst show_nat.simps) simp
  next
    case False
    then have pos: "0 < n div 10" by (simp add: div_greater_zero_iff)
    have "floorlog 10 n = floorlog 10 (n div 10) + 1"
      using "1.prems" by (subst compute_floorlog) simp
    moreover have "length (show_nat n) = length (show_nat (n div 10)) + 1"
      using False by (subst show_nat.simps) simp
    ultimately show ?thesis using 1(1) [OF False pos] by simp
  qed
qed

lemma strip_zeros_replicate: "strip_zeros (replicate k (CHR ''0'')) = []"
  by (simp add: strip_zeros_def)

lemma dec_exponent_nat: "0 < n \<Longrightarrow> dec_exponent (of_nat n) = int (floorlog 10 n) - 1"
proof -
  assume "0 < n"
  have "quotient_of (of_nat n :: rat) = (int n, 1)"
    using quotient_of_int [of "int n"] by simp
  then show ?thesis using \<open>0 < n\<close> by (simp add: dec_exponent_def)
qed

lemma round_half_even_int: "round_half_even (of_int k) = k"
  by (simp add: round_half_even_def)

lemma sig6_nat:
  assumes "0 < n" "n < 1000000"
  shows "sig6 (of_nat n) = (int (n * 10 ^ (6 - floorlog 10 n)), int (floorlog 10 n) - 1)"
proof -
  let ?fl = "floorlog 10 n"
  have fl: "1 \<le> ?fl" "?fl \<le> 6"
    using assms floorlog_leI [of n 10 6] floorlog_ge_SucI [of 10 0 n] by simp_all
  have b: "n < 10 ^ ?fl" using floorlog_bounds [of n 10] assms(1) by simp
  have "n * 10 ^ (6 - ?fl) < 10 ^ ?fl * 10 ^ (6 - ?fl)"
    using b by simp
  also have "\<dots> = 10 ^ 6" using fl by (simp flip: power_add)
  finally have lt: "n * 10 ^ (6 - ?fl) < 1000000" by simp
  have "int (6 - ?fl) = 6 - int ?fl" using fl by simp
  then have k: "nat (6 - int ?fl) = 6 - ?fl" by (metis nat_int)
  have "scale10 (of_nat n) (6 - int ?fl) = of_int (int (n * 10 ^ (6 - ?fl)))"
    using fl by (simp add: scale10_def k)
  then have "round_half_even (scale10 (of_nat n) (6 - int ?fl)) = int (n * 10 ^ (6 - ?fl))"
    by (simp only: round_half_even_int)
  moreover have "int (n * 10 ^ (6 - ?fl)) < int 1000000"
    using lt by (simp only: of_nat_less_iff)
  then have "int n * 10 ^ (6 - ?fl) < 1000000" by simp
  ultimately show ?thesis
    by (simp add: sig6_def dec_exponent_nat [OF assms(1)] Let_def)
qed

lemma show_g6_nat:
  assumes "n < 1000000"
  shows "show_g6 (of_nat n) = show_nat n"
proof (cases "n = 0")
  case True
  then show ?thesis by (simp add: show_g6_def show_nat.simps digit_char_def)
next
  case False
  then have pos: "0 < n" by simp
  let ?fl = "floorlog 10 n"
  have fl: "1 \<le> ?fl" "?fl \<le> 6"
    using assms pos floorlog_leI [of n 10 6] floorlog_ge_SucI [of 10 0 n] by simp_all
  have "nat (int n * 10 ^ (6 - ?fl)) = n * 10 ^ (6 - ?fl)"
    by (simp add: nat_mult_distrib nat_power_eq)
  then have ds: "show_nat (nat (int n * 10 ^ (6 - ?fl))) = show_nat n @ replicate (6 - ?fl) (CHR ''0'')"
    using show_nat_pow10 [OF pos] by simp
  have len: "length (show_nat n) = ?fl" by (rule length_show_nat [OF pos])
  have x: "nat (int ?fl - 1) + 1 = ?fl" using fl by simp
  have r: "- 4 \<le> int ?fl - 1" "int ?fl - 1 < 6" "0 \<le> int ?fl - 1"
    using fl by simp_all
  have ne: "(of_nat n :: rat) \<noteq> 0" using pos by simp
  show ?thesis
    unfolding show_g6_def sig6_nat [OF pos assms]
    using ne r by (simp add: ds len x strip_zeros_replicate with_point_def)
qed

lemma show_double_nat: "n < 1000000 \<Longrightarrow> show_double (Finite (of_nat n)) = show_nat n"
  by (simp add: show_g6_nat)

subsection \<open>The metadata file\<close>

lemma show_g6_1234570: "show_g6 1234570 = ''1.23457e+06''"
proof -
  have e: "dec_exponent 1234570 = 6"
    by (simp add: dec_exponent_def compute_floorlog)
  have s: "sig6 1234570 = (123457, 6)"
    by (simp add: sig6_def e scale10_def round_half_even_def Let_def floor_numeral_div)
  have n: "show_nat 123457 = ''123457''" "show_nat 6 = ''6''"
    by (simp_all add: show_nat.simps digit_char_def)
  show ?thesis
    by (simp add: show_g6_def s n with_point_def strip_zeros_def setw_setfill_def)
qed

text \<open>
  Claim C5, as the code has it.  When the file can be opened, \<^verbatim>\<open>print_meta_data\<close>
  writes, at the path made of the output directory, \<^verbatim>\<open>/META_\<close> and the run
  number filled with zeros on the left to at least six digits, the four lines
  start\_time, center\_freq, sampling\_freq and gain, in this order.  The run number in
  the path and the values of center\_freq and sampling\_freq are written in full
  and read back as the fields of the configuration.  The gain is written the way a
  stream prints a double, with six significant digits: a whole gain below 1000000 is
  written in full.
\<close>

theorem metadata_file_contents:
  assumes "can_open e (meta_path (args s))"
  shows "files (print_meta_data e s) =
           (files s)
             (data_dir (args s) @ ''/META_''
                @ setw_setfill 6 (CHR ''0'') (show_nat (unat (run_num (args s)))) \<mapsto>
              ''start_time: '' @ show_double (start_time e) @ newline
              @ ''center_freq: '' @ show_nat (unat (rx_freq (args s))) @ newline
              @ ''sampling_freq: '' @ show_nat (unat (rate (args s))) @ newline
              @ ''gain: '' @ show_double (gain (args s)) @ newline)
       \<and> 6 \<le> length (setw_setfill 6 (CHR ''0'') (show_nat (unat (run_num (args s)))))
       \<and> read_nat (setw_setfill 6 (CHR ''0'') (show_nat (unat (run_num (args s)))))
           = unat (run_num (args s))
       \<and> read_nat (show_nat (unat (rx_freq (args s)))) = unat (rx_freq (args s))
       \<and> read_nat (show_nat (unat (rate (args s)))) = unat (rate (args s))
       \<and> (\<forall>n<1000000. gain (args s) = Finite (of_nat n) \<longrightarrow>
             show_double (gain (args s)) = show_nat n)"
proof -
  have p: "meta_path (args s) = data_dir (args s) @ ''/META_''
             @ setw_setfill 6 (CHR ''0'') (show_nat (unat (run_num (args s))))"
    by (simp add: meta_path_def META_PREFIX_def)
  have f: "files (print_meta_data e s) =
             (files s)(meta_path (args s) \<mapsto> meta_text e (args s))"
    using assms by (simp add: print_meta_data_files)
  have l: "6 \<le> length (setw_setfill 6 (CHR ''0'') (show_nat (unat (run_num (args s)))))"
    by (simp add: setw_setfill_def)
  have g: "\<forall>n<1000000. gain (args s) = Finite (of_nat n) \<longrightarrow>
             show_double (gain (args s)) = show_nat n"
    using show_double_nat by simp
  show ?thesis
    using f l g unfolding p meta_text_def
    by (simp add: read_setw read_show_nat)
qed

theorem metadata_file_contents_witness:
  "can_open env_sample (meta_path (args state_ready))
   \<and> files (print_meta_data env_sample state_ready) =
       [''/tmp/run/META_000007'' \<mapsto>
          ''start_time: 1.7e+09'' @ newline @ ''center_freq: 150000000'' @ newline
            @ ''sampling_freq: 2000000'' @ newline @ ''gain: 30'' @ newline]"
proof -
  have h: "can_open env_sample (meta_path (args state_ready))"
    by (simp add: env_sample_def always_def)
  have a: "args state_ready = cmd_args_sample" "files state_ready = Map.empty"
    by (simp_all add: state_ready_def)
  have m: "data_dir cmd_args_sample @ ''/META_''
             @ setw_setfill 6 (CHR ''0'') (show_nat (unat (run_num cmd_args_sample)))
           = ''/tmp/run/META_000007''"
    using meta_path_sample by (simp add: meta_path_def META_PREFIX_def)
  have t: "''start_time: '' @ show_double (start_time env_sample) @ newline
              @ ''center_freq: '' @ show_nat (unat (rx_freq cmd_args_sample)) @ newline
              @ ''sampling_freq: '' @ show_nat (unat (rate cmd_args_sample)) @ newline
              @ ''gain: '' @ show_double (gain cmd_args_sample) @ newline
           = ''start_time: 1.7e+09'' @ newline @ ''center_freq: 150000000'' @ newline
            @ ''sampling_freq: 2000000'' @ newline @ ''gain: 30'' @ newline"
    using meta_text_sample by (simp add: meta_text_def)
  from metadata_file_contents [OF h]
  have "files (print_meta_data env_sample state_ready) =
           (files state_ready)
             (data_dir (args state_ready) @ ''/META_''
                @ setw_setfill 6 (CHR ''0'') (show_nat (unat (run_num (args state_ready)))) \<mapsto>
              ''start_time: '' @ show_double (start_time env_sample) @ newline
              @ ''center_freq: '' @ show_nat (unat (rx_freq (args state_ready))) @ newline
              @ ''sampling_freq: '' @ show_nat (unat (rate (args state_ready))) @ newline
              @ ''gain: '' @ show_double (gain (args state_ready)) @ newline)"
    by blast
  then show ?thesis
    using h unfolding a m t by simp
qed

text \<open>
  Claim C5 as the specification states it fails in two ways.  The sample
  configuration is valid, and yet no file exists after \<^verbatim>\<open>print_meta_data\<close> when the
  path cannot be opened.  And with the valid gain 1234567 the gain line of the file
  reads \<^verbatim>\<open>1.23457e+06\<close>, the very file that the gain 1234570 produces.
\<close>

theorem metadata_missing_or_rounded:
  "first_offender cmd_args_sample = None
   \<and> files (print_meta_data env_unwritable state_ready) (meta_path cmd_args_sample) = None
   \<and> first_offender (cmd_args_sample\<lparr>gain := Finite 1234567\<rparr>) = None
   \<and> files (print_meta_data env_sample
               (state_ready\<lparr>args := cmd_args_sample\<lparr>gain := Finite 1234567\<rparr>\<rparr>))
        ''/tmp/run/META_000007''
       = Some (''start_time: 1.7e+09'' @ newline @ ''center_freq: 150000000'' @ newline
                 @ ''sampling_freq: 2000000'' @ newline @ ''gain: 1.23457e+06'' @ newline)
   \<and> files (print_meta_data env_sample
               (state_ready\<lparr>args := cmd_args_sample\<lparr>gain := Finite 1234570\<rparr>\<rparr>))
       = files (print_meta_data env_sample
                  (state_ready\<lparr>args := cmd_args_sample\<lparr>gain := Finite 1234567\<rparr>\<rparr>))"
proof -
  have v: "first_offender cmd_args_sample = None"
    "first_offender (cmd_args_sample\<lparr>gain := Finite 1234567\<rparr>) = None"
    by (simp_all add: first_offender_def checking_order_def cmd_args_sample_def
          cmd_args_default_def)
  have p: "meta_path (cmd_args_sample\<lparr>gain := Finite g\<rparr>) = ''/tmp/run/META_000007''" for g
    using meta_path_sample by (simp add: meta_path_def)
  have t: "meta_text env_sample (cmd_args_sample\<lparr>gain := Finite g\<rparr>) =
             ''start_time: 1.7e+09'' @ newline @ ''center_freq: 150000000'' @ newline
               @ ''sampling_freq: 2000000'' @ newline @ ''gain: '' @ show_double (Finite g)
               @ newline" for g
    by (simp add: meta_text_def env_sample_def cmd_args_sample_def cmd_args_default_def
          show_g6_start show_nat_freq show_nat_rate)
  have o: "can_open env_sample q" for q
    by (simp add: env_sample_def always_def)
  have u: "files (print_meta_data env_unwritable state_ready) (meta_path cmd_args_sample) = None"
    by (simp add: print_meta_data_files env_unwritable_sel state_ready_def)
  have a: "files (print_meta_data env_sample
               (state_ready\<lparr>args := cmd_args_sample\<lparr>gain := Finite 1234567\<rparr>\<rparr>))
        ''/tmp/run/META_000007''
       = Some (''start_time: 1.7e+09'' @ newline @ ''center_freq: 150000000'' @ newline
                 @ ''sampling_freq: 2000000'' @ newline @ ''gain: 1.23457e+06'' @ newline)"
    by (simp add: print_meta_data_files o p t show_g6_1234567 state_ready_def)
  have b: "files (print_meta_data env_sample
               (state_ready\<lparr>args := cmd_args_sample\<lparr>gain := Finite 1234570\<rparr>\<rparr>))
       = files (print_meta_data env_sample
                  (state_ready\<lparr>args := cmd_args_sample\<lparr>gain := Finite 1234567\<rparr>\<rparr>))"
    by (simp add: print_meta_data_files o p t show_g6_1234567 show_g6_1234570 state_ready_def)
  from v u a b show ?thesis by blast
qed

end
